theory Spec2Isabelle
  imports Complex_Main "HOL-Library.Word"
begin

section \<open>Module parameters of \<^verbatim>\<open>Eq_SciPy_ARM.py\<close>\<close>

text \<open>
  The module-level constants the claims depend on. \<^verbatim>\<open>BASE_FREQUENCY\<close> and \<^verbatim>\<open>FS\<close> are
  Python integers in the source; \<^verbatim>\<open>FS\<close> is only ever used as a sample rate in float
  arithmetic and is kept as a real number.
\<close>

definition BASE_FREQUENCY :: int where
  "BASE_FREQUENCY = 100"

definition NUM_BANDS :: nat where
  "NUM_BANDS = 6"

definition FS :: real where
  "FS = 16000"

definition POSTSHIFT :: nat where
  "POSTSHIFT = 4"

definition NUMSTAGES :: nat where
  "NUMSTAGES = 3"

section \<open>Data\<close>

text \<open>
  The exceptions the modelled code can raise: an index outside a Python list
  (\<^verbatim>\<open>self.edges[i + 1]\<close>, \<^verbatim>\<open>self.sos_list[i]\<close>, \<^verbatim>\<open>signal_list[0]\<close>),
  numpy's or scipy's \<^verbatim>\<open>ValueError\<close> (\<^verbatim>\<open>np.reshape\<close> to a size the array does not have,
  a critical frequency outside (0, 1) in \<^verbatim>\<open>butter\<close>), a \<^verbatim>\<open>TypeError\<close>
  (\<^verbatim>\<open>None * (2**31)\<close> when no signal was stored, \<^verbatim>\<open>np.log10\<close> of a Python integer that
  fits no 64-bit integer type), the \<^verbatim>\<open>OverflowError\<close> of converting a Python integer
  too large for a float, the \<^verbatim>\<open>ZeroDivisionError\<close> of dividing a Python number by a
  zero, and a failure to read the input file.
  The source defines no exception class of its own and has no \<^verbatim>\<open>raise\<close> statement:
  every error of the model comes from an index, from Python's or numpy's arithmetic or
  from a library call.
\<close>

datatype error =
  IndexError | ValueError | TypeError | OverflowError | ZeroDivisionError | IOError

text \<open>
  A floating-point value (\<^verbatim>\<open>float\<close>, \<^verbatim>\<open>numpy.float64\<close>) is a finite number, one of the
  two infinities or not-a-number. The rounding of finite results is not modelled: a
  finite value is the real number the operation intends, and a theorem that states the
  value of a finite result holds of the program up to rounding. What is modelled is
  where the arithmetic leaves the finite numbers: a result of magnitude \<open>2^1024\<close> or more
  is an infinity, and the operations on infinities and not-a-number follow IEEE 754.
  The sign of a zero is not kept: a zero divisor is taken as positive. The only zero
  the modelled code can divide by is \<^verbatim>\<open>0.5 * fs\<close> in \<^verbatim>\<open>butter_bandpass\<close>.
\<close>

datatype npfloat = Fin real | PosInf | NegInf | NaN

text \<open>
  A Python number as the planner meets it: an integer of unbounded size or a float.
  An argument that may be either a Python number or a numpy float, the two dividing
  differently, is a \<open>number\<close>.
\<close>

datatype pynum = PyInt int | PyFloat npfloat


text \<open>
  A cascade of second-order sections is scipy's two-dimensional array: one row per
  section, the row holding \<^verbatim>\<open>b0, b1, b2, a0, a1, a2\<close>.
\<close>

type_synonym sos = "real list list"

record SignalProcessor =
  fs :: real
  base_frequency :: int
  num_bands :: nat
  input_signal :: "real list option"
  sos_list :: "sos list"
  frequencies :: "pynum list"
  edges :: "npfloat list"
  coefs :: "int list"

definition SignalProcessor_init :: SignalProcessor where
  "SignalProcessor_init =
     \<lparr>fs = FS, base_frequency = BASE_FREQUENCY, num_bands = NUM_BANDS + 1,
      input_signal = None, sos_list = [], frequencies = [], edges = [], coefs = []\<rparr>"

section \<open>Python and numpy arithmetic\<close>

text \<open>
  \<open>fl\<close> gives the float for a real result: an infinity from \<open>2^1024\<close> on.
  Converting a Python integer to a float (as \<^verbatim>\<open>int * float\<close> does) raises
  \<^verbatim>\<open>OverflowError\<close> when the integer would round to \<open>2^1024\<close>, that is from
  \<open>2^1024 - 2^970\<close> on.
\<close>

definition float_limit :: real where
  "float_limit = 2 ^ 1024"

definition int_to_float_limit :: int where
  "int_to_float_limit = 2 ^ 1024 - 2 ^ 970"

definition fl :: "real \<Rightarrow> npfloat" where
  "fl r = (if float_limit \<le> r then PosInf else if r \<le> - float_limit then NegInf else Fin r)"

definition int_to_float :: "int \<Rightarrow> error + npfloat" where
  "int_to_float k =
     (if int_to_float_limit \<le> \<bar>k\<bar> then Inl OverflowError else Inr (Fin (real_of_int k)))"

text \<open>
  Negation, addition, subtraction, multiplication and division of floats. None of them
  raises: Python's float multiplication overflows to an infinity, and the divisions of
  the modelled code are numpy's, which give an infinity or not-a-number (with a
  warning) for a zero divisor.
\<close>

fun float_neg :: "npfloat \<Rightarrow> npfloat" where
  "float_neg (Fin x) = Fin (- x)"
| "float_neg PosInf = NegInf"
| "float_neg NegInf = PosInf"
| "float_neg NaN = NaN"

fun float_add :: "npfloat \<Rightarrow> npfloat \<Rightarrow> npfloat" where
  "float_add (Fin x) (Fin y) = fl (x + y)"
| "float_add NaN _ = NaN"
| "float_add _ NaN = NaN"
| "float_add PosInf NegInf = NaN"
| "float_add NegInf PosInf = NaN"
| "float_add PosInf _ = PosInf"
| "float_add NegInf _ = NegInf"
| "float_add (Fin x) PosInf = PosInf"
| "float_add (Fin x) NegInf = NegInf"

definition float_sub :: "npfloat \<Rightarrow> npfloat \<Rightarrow> npfloat" where
  "float_sub x y = float_add x (float_neg y)"

fun float_mul :: "npfloat \<Rightarrow> npfloat \<Rightarrow> npfloat" where
  "float_mul (Fin x) (Fin y) = fl (x * y)"
| "float_mul NaN _ = NaN"
| "float_mul _ NaN = NaN"
| "float_mul (Fin x) PosInf = (if x = 0 then NaN else if 0 < x then PosInf else NegInf)"
| "float_mul (Fin x) NegInf = (if x = 0 then NaN else if 0 < x then NegInf else PosInf)"
| "float_mul PosInf (Fin y) = (if y = 0 then NaN else if 0 < y then PosInf else NegInf)"
| "float_mul NegInf (Fin y) = (if y = 0 then NaN else if 0 < y then NegInf else PosInf)"
| "float_mul PosInf PosInf = PosInf"
| "float_mul PosInf NegInf = NegInf"
| "float_mul NegInf PosInf = NegInf"
| "float_mul NegInf NegInf = PosInf"

fun float_div :: "npfloat \<Rightarrow> npfloat \<Rightarrow> npfloat" where
  "float_div (Fin x) (Fin y) =
     (if y = 0 then (if x = 0 then NaN else if 0 < x then PosInf else NegInf) else fl (x / y))"
| "float_div NaN _ = NaN"
| "float_div _ NaN = NaN"
| "float_div (Fin x) PosInf = Fin 0"
| "float_div (Fin x) NegInf = Fin 0"
| "float_div PosInf (Fin y) = (if 0 \<le> y then PosInf else NegInf)"
| "float_div NegInf (Fin y) = (if 0 \<le> y then NegInf else PosInf)"
| "float_div PosInf _ = NaN"
| "float_div NegInf _ = NaN"

text \<open>
  numpy's \<^verbatim>\<open>log10\<close> of a float: minus infinity at zero and not-a-number below it, each
  with a warning and no exception. \<^verbatim>\<open>10 ** x\<close> for a numpy float \<open>x\<close>.
\<close>

fun float_log10 :: "npfloat \<Rightarrow> npfloat" where
  "float_log10 (Fin x) = (if 0 < x then Fin (log 10 x) else if x = 0 then NegInf else NaN)"
| "float_log10 PosInf = PosInf"
| "float_log10 NegInf = NaN"
| "float_log10 NaN = NaN"

fun ten_power :: "npfloat \<Rightarrow> npfloat" where
  "ten_power (Fin x) = fl (10 powr x)"
| "ten_power PosInf = PosInf"
| "ten_power NegInf = Fin 0"
| "ten_power NaN = NaN"

text \<open>
  \<^verbatim>\<open>2**i\<close> for a Python integer \<open>i\<close>: an integer for \<open>i \<ge> 0\<close>, a float for \<open>i < 0\<close>.
  \<^verbatim>\<open>a * b\<close>: exact on integers; with one float operand the integer is converted first.
\<close>

definition py_pow2 :: "int \<Rightarrow> pynum" where
  "py_pow2 i = (if 0 \<le> i then PyInt (2 ^ nat i) else PyFloat (Fin (2 powi i)))"

fun py_mul :: "pynum \<Rightarrow> pynum \<Rightarrow> error + pynum" where
  "py_mul (PyInt a) (PyInt b) = Inr (PyInt (a * b))"
| "py_mul (PyInt a) (PyFloat y) =
     (case int_to_float a of Inl e \<Rightarrow> Inl e | Inr x \<Rightarrow> Inr (PyFloat (float_mul x y)))"
| "py_mul (PyFloat x) (PyInt b) =
     (case int_to_float b of Inl e \<Rightarrow> Inl e | Inr y \<Rightarrow> Inr (PyFloat (float_mul x y)))"
| "py_mul (PyFloat x) (PyFloat y) = Inr (PyFloat (float_mul x y))"

text \<open>
  \<^verbatim>\<open>np.log10\<close> of a Python number. numpy converts a Python integer to \<^verbatim>\<open>int64\<close>, or to
  \<^verbatim>\<open>uint64\<close> from \<open>2^63\<close> on; an integer outside both becomes an object array, on which
  \<^verbatim>\<open>log10\<close> raises \<^verbatim>\<open>TypeError\<close>.
\<close>

fun np_log10 :: "pynum \<Rightarrow> error + npfloat" where
  "np_log10 (PyInt k) =
     (if k < - (2 ^ 63) \<or> 2 ^ 64 \<le> k then Inl TypeError
      else Inr (float_log10 (Fin (real_of_int k))))"
| "np_log10 (PyFloat x) = Inr (float_log10 x)"

text \<open>
  A list comprehension or loop whose body can raise: the results in order, or the first
  error.
\<close>

fun map_result :: "('a \<Rightarrow> error + 'b) \<Rightarrow> 'a list \<Rightarrow> error + 'b list" where
  "map_result f [] = Inr []"
| "map_result f (x # xs) =
     (case f x of
        Inl e \<Rightarrow> Inl e
      | Inr y \<Rightarrow> (case map_result f xs of Inl e \<Rightarrow> Inl e | Inr ys \<Rightarrow> Inr (y # ys)))"

section \<open>The band planner: \<^verbatim>\<open>calculate_centers\<close>\<close>

text \<open>
  \<^verbatim>\<open>10**(np.log10(lo) + ((np.log10(hi) - np.log10(lo)) / 2))\<close>, the right-hand side of
  the assignment to \<^verbatim>\<open>edges[i]\<close>.
\<close>

definition log_midpoint :: "pynum \<Rightarrow> pynum \<Rightarrow> error + npfloat" where
  "log_midpoint lo hi =
     (case np_log10 lo of
        Inl e \<Rightarrow> Inl e
      | Inr llo \<Rightarrow>
          (case np_log10 hi of
             Inl e \<Rightarrow> Inl e
           | Inr lhi \<Rightarrow>
               Inr (ten_power (float_add llo (float_div (float_sub lhi llo) (Fin 2))))))"

text \<open>
  The loop \<^verbatim>\<open>for i in range(len(frequencies)-1)\<close> that assigns \<^verbatim>\<open>edges[i]\<close>; the indices
  it visits are inside both lists.
\<close>

fun fill_edges :: "pynum list \<Rightarrow> nat list \<Rightarrow> npfloat list \<Rightarrow> error + npfloat list" where
  "fill_edges freqs [] es = Inr es"
| "fill_edges freqs (i # rest) es =
     (case log_midpoint (freqs ! i) (freqs ! (i + 1)) of
        Inl e \<Rightarrow> Inl e
      | Inr v \<Rightarrow> fill_edges freqs rest (es[i := v]))"

text \<open>
  The method computes the list comprehension
  \<^verbatim>\<open>[base_frequency * 2**i for i in range(-1, num_bands)]\<close>, creates
  \<^verbatim>\<open>[0] * (len(frequencies) - 1)\<close> (the empty list when the length is 0 or 1) and fills
  every slot of it in the loop. It stores both lists in the object and returns them.
  It validates nothing; the errors it can end in are the \<^verbatim>\<open>OverflowError\<close> of the
  comprehension and the \<^verbatim>\<open>TypeError\<close> of \<^verbatim>\<open>np.log10\<close>. The printing between the loop
  and the return formats values that have passed \<^verbatim>\<open>np.log10\<close> and raises nothing.
\<close>

definition calculate_centers ::
  "SignalProcessor \<Rightarrow> pynum \<Rightarrow> int
     \<Rightarrow> error + ((pynum list \<times> npfloat list) \<times> SignalProcessor)" where
  "calculate_centers self base_freq n_bands =
     (case map_result (\<lambda>i. py_mul base_freq (py_pow2 i)) [-1..n_bands - 1] of
        Inl e \<Rightarrow> Inl e
      | Inr freqs \<Rightarrow>
          (case fill_edges freqs [0..<length freqs - 1]
                  (replicate (length freqs - 1) (Fin 0)) of
             Inl e \<Rightarrow> Inl e
           | Inr es \<Rightarrow> Inr ((freqs, es), self\<lparr>frequencies := freqs, edges := es\<rparr>)))"

section \<open>Loading a signal: \<^verbatim>\<open>load_input_signal\<close>\<close>

definition INPUT_FILENAME :: string where
  "INPUT_FILENAME = ''input_file.wav''"

text \<open>
  \<^verbatim>\<open>librosa.load(input_filename, sr=None)\<close> is outside the repository: it is the parameter
  \<open>librosa_load\<close>, which gives the samples and the sample rate stored in the file, or
  fails. The method binds the file's rate to the local \<^verbatim>\<open>fs\<close> and overwrites it with
  \<^verbatim>\<open>self.fs\<close> in the next statement; the plotting calls that follow receive that local
  \<^verbatim>\<open>fs\<close>. The model returns the updated object together with the rate handed to the
  plots.
\<close>

definition load_input_signal ::
  "(string \<Rightarrow> error + (real list \<times> real)) \<Rightarrow> SignalProcessor \<Rightarrow> string
     \<Rightarrow> error + (SignalProcessor \<times> real)" where
  "load_input_signal librosa_load self filename =
     (let input_filename = filename in
      case librosa_load input_filename of
        Inl e \<Rightarrow> Inl e
      | Inr (samples, file_fs) \<Rightarrow>
          (let self = self\<lparr>input_signal := Some samples\<rparr>;
               fs_local = file_fs;
               fs_local = fs self
           in Inr (self, fs_local)))"

section \<open>Quantization to Q31\<close>

text \<open>
  \<^verbatim>\<open>np.round\<close>: the nearest integer, a tie going to the even neighbour. numpy keeps the
  \<^verbatim>\<open>float64\<close> type for the rounded array; the model gives the integer it holds.
\<close>

definition np_round :: "real \<Rightarrow> int" where
  "np_round x =
     (let f = \<lfloor>x\<rfloor>; d = x - of_int f
      in if d < 1 / 2 then f else if 1 / 2 < d then f + 1 else if even f then f else f + 1)"

text \<open>
  \<^verbatim>\<open>np.hstack((sos[:,:3], -sos[:,4:]))\<close>: row by row, the first three columns followed by
  the negated columns from index 4 on.
\<close>

definition hstack_coefs :: "sos \<Rightarrow> real list list" where
  "hstack_coefs s = map (\<lambda>row. take 3 row @ map uminus (drop 4 row)) s"

text \<open>
  \<^verbatim>\<open>np.reshape(a, n)\<close> of a two-dimensional array: its entries in row-major order, or a
  \<^verbatim>\<open>ValueError\<close> when the array does not hold \<open>n\<close> entries.
\<close>

definition np_reshape :: "real list list \<Rightarrow> nat \<Rightarrow> error + real list" where
  "np_reshape rows n =
     (if length (concat rows) = n then Inr (concat rows) else Inl ValueError)"

text \<open>
  The four statements that \<^verbatim>\<open>plot_bandpass_filter_response\<close> (with the literal size 15)
  and \<^verbatim>\<open>apply_filters_and_print_ARM\<close> (with \<^verbatim>\<open>NUMSTAGES * 5\<close>) share:
  \<^verbatim>\<open>coefs = np.reshape(np.hstack(...), size); coefs = coefs / (POSTSHIFT ** 2);
  coefsQ31 = coefs * (2**31); coefsQ31 = np.round(coefsQ31)\<close>. There is no check of the
  rounded values.
\<close>

definition coefsQ31 :: "nat \<Rightarrow> sos \<Rightarrow> error + int list" where
  "coefsQ31 n s =
     (case np_reshape (hstack_coefs s) n of
        Inl e \<Rightarrow> Inl e
      | Inr cs \<Rightarrow>
          (let cs = map (\<lambda>c. c / real (POSTSHIFT ^ 2)) cs;
               qs = map (\<lambda>c. c * 2 ^ 31) cs
           in Inr (map np_round qs)))"

section \<open>Filter design: \<^verbatim>\<open>butter_bandpass\<close> and \<^verbatim>\<open>plot_bandpass_filter_response\<close>\<close>






section \<open>Applying the filters\<close>



text \<open>
  The CMSIS-DSP wrapper is outside the repository. \<open>cmsis_init\<close> stands for creating
  the instance and \<^verbatim>\<open>arm_biquad_cascade_df1_init_q31(S, numStages, coefs, state, postShift)\<close>,
  \<open>cmsis_run\<close> for \<^verbatim>\<open>arm_biquad_cascade_df1_q31(S, signal)\<close>, whose result is an array
  of 32-bit integers: the in-place \<^verbatim>\<open>res2 *= 4\<close> is a multiplication of that type and
  wraps, and \<^verbatim>\<open>res2 / (2**31)\<close> reads the signed values as floats.
\<close>

type_synonym 'inst cmsis_init = "nat \<Rightarrow> int list \<Rightarrow> real list \<Rightarrow> nat \<Rightarrow> error + 'inst"

type_synonym 'inst cmsis_run = "'inst \<Rightarrow> real list \<Rightarrow> error + 32 word list"

text \<open>
  The body of the loop of \<^verbatim>\<open>apply_filters_and_print_ARM\<close> for band \<open>i\<close>: the band's
  output signal and the object with \<^verbatim>\<open>self.coefs\<close> updated.
\<close>

definition arm_band ::
  "'inst cmsis_init \<Rightarrow> 'inst cmsis_run \<Rightarrow> SignalProcessor \<Rightarrow> nat
     \<Rightarrow> error + (real list \<times> SignalProcessor)" where
  "arm_band cmsis_init cmsis_run self i =
     (if length (sos_list self) \<le> i then Inl IndexError
      else
        (let s = sos_list self ! i
         in case coefsQ31 (NUMSTAGES * 5) s of
              Inl e \<Rightarrow> Inl e
            | Inr q \<Rightarrow>
                (let self = self\<lparr>coefs := q\<rparr>;
                     state = replicate (NUMSTAGES * 4) (0::real)
                 in case cmsis_init NUMSTAGES (coefs self) state POSTSHIFT of
                      Inl e \<Rightarrow> Inl e
                    | Inr biquadQ31 \<Rightarrow>
                        (case input_signal self of
                           None \<Rightarrow> Inl TypeError
                         | Some signal \<Rightarrow>
                             (let sigQ31 = map (\<lambda>x. x * 2 ^ 31) signal;
                                  sigQ31 = map (\<lambda>x. x / 4) sigQ31
                              in case cmsis_run biquadQ31 sigQ31 of
                                   Inl e \<Rightarrow> Inl e
                                 | Inr res2 \<Rightarrow>
                                     (let res2 = map (\<lambda>y. y * 4) res2;
                                          res2 = map (\<lambda>y. real_of_int (sint y) / 2 ^ 31) res2
                                      in Inr (res2, self)))))))"



section \<open>The main program\<close>



section \<open>Reconstruction of coefficients and example data\<close>

text \<open>
  Modelled from the spec: the source has no inverse of the quantizer. The spec's round
  trip "reverses the scale factor": the Q31 integer is multiplied by the scale
  \<^verbatim>\<open>POSTSHIFT ** 2\<close> and divided by \<open>2^31\<close>.
\<close>

definition spec_dequantize :: "int \<Rightarrow> real" where
  "spec_dequantize q = real_of_int q * real (POSTSHIFT ^ 2) / 2 ^ 31"

text \<open>
  Three cascades of three sections each, used as concrete inputs: one with ordinary
  coefficients, and two with a coefficient whose scaled value is not below \<open>2^31\<close>.
\<close>

definition example_sos :: sos where
  "example_sos = [[1, 2, 1, 1, - 3 / 2, 7 / 10], [1 / 10, 0, - 1 / 10, 1, 1 / 4, 1 / 2],
                  [1, - 2, 1, 1, 0, 1 / 3]]"

definition overflow_sos :: sos where
  "overflow_sos = [[16, 0, 0, 1, 0, 0], [1, 2, 1, 1, 0, 0], [1, 2, 1, 1, 0, 0]]"

definition large_feedback_sos :: sos where
  "large_feedback_sos = [[1, 2, 1, 1, - 40, 0], [1, 2, 1, 1, 0, 0], [1, 2, 1, 1, 0, 0]]"

text \<open>
  A reader of the input file that finds two samples recorded at 44100 Hz, a rate other
  than \<open>FS\<close>.
\<close>

definition wav_44100 :: "string \<Rightarrow> error + (real list \<times> real)" where
  "wav_44100 name = Inr ([1 / 2, - 1 / 2], 44100)"



definition example_init :: "(nat \<times> int list \<times> nat) cmsis_init" where
  "example_init numStages cs state postShift = Inr (numStages, cs, postShift)"

definition example_run :: "(nat \<times> int list \<times> nat) cmsis_run" where
  "example_run inst xs = Inr (map (\<lambda>x. word_of_int \<lfloor>x\<rfloor>) xs)"

text \<open>
  A processor holding the one-sample signal 1.0 and a single cascade that passes a signal
  unchanged.
\<close>

definition unity_sos :: sos where
  "unity_sos = [[1, 0, 0, 1, 0, 0], [1, 0, 0, 1, 0, 0], [1, 0, 0, 1, 0, 0]]"

definition full_scale_processor :: SignalProcessor where
  "full_scale_processor = SignalProcessor_init\<lparr>input_signal := Some [1], sos_list := [unity_sos]\<rparr>"

section \<open>Facts about the arithmetic and the planner\<close>

lemma float_limit_ge: "n \<le> 1024 \<Longrightarrow> (2::real) ^ n \<le> float_limit"
  unfolding float_limit_def by (rule power_increasing) simp_all

lemma float_limit_gt: "n < 1024 \<Longrightarrow> (2::real) ^ n < float_limit"
  unfolding float_limit_def by (rule power_strict_increasing) simp_all

lemma float_limit_4096: "4096 \<le> float_limit"
  using float_limit_ge [of 12] by simp

lemma fl_Fin: "\<bar>r\<bar> < float_limit \<Longrightarrow> fl r = Fin r"
  by (auto simp: fl_def)

lemma int_to_float_limit_gt: "n \<le> 1023 \<Longrightarrow> (2::int) ^ n < int_to_float_limit"
proof -
  assume n: "n \<le> 1023"
  have a: "(2::int) ^ 970 < 2 ^ 1023"
    by (rule power_strict_increasing) simp_all
  have b: "(2::int) ^ n \<le> 2 ^ 1023"
    using n by (intro power_increasing) simp_all
  have "(2::int) ^ Suc 1023 = 2 * 2 ^ 1023"
    by (rule power_Suc)
  moreover have "Suc 1023 = 1024"
    by simp
  ultimately have c: "(2::int) ^ 1024 = 2 ^ 1023 + 2 ^ 1023"
    by (simp only: mult_2)
  have arith: "y < x \<Longrightarrow> z \<le> x \<Longrightarrow> z < x + x - y" for x y z :: int
    by linarith
  show ?thesis
    unfolding int_to_float_limit_def c using a b by (rule arith)
qed

lemma int_to_float_Fin:
  assumes "\<bar>k\<bar> \<le> 2 ^ n" and "n \<le> 1023"
  shows "int_to_float k = Inr (Fin (real_of_int k))"
  using assms int_to_float_limit_gt [of n] by (simp add: int_to_float_def)

lemma map_result_Inr:
  "(\<And>x. x \<in> set xs \<Longrightarrow> f x = Inr (g x)) \<Longrightarrow> map_result f xs = Inr (map g xs)"
  by (induction xs) simp_all




lemma fold_update_length:
  "length (fold (\<lambda>i es. es[i := g i]) js es) = length es"
  by (induction js arbitrary: es) simp_all

lemma fold_update_nth:
  "k < length es \<Longrightarrow>
   fold (\<lambda>i es. es[i := g i]) js es ! k = (if k \<in> set js then g k else es ! k)"
  by (induction js arbitrary: es) (auto simp: fold_update_length nth_list_update)

lemma fold_update_all:
  "fold (\<lambda>i es. es[i := g i]) [0..<m] (replicate m z) = map g [0..<m]"
  by (rule nth_equalityI) (simp_all add: fold_update_length fold_update_nth)

lemma fill_edges_fold:
  "(\<And>j. j \<in> set js \<Longrightarrow> log_midpoint (freqs ! j) (freqs ! (j + 1)) = Inr (g j)) \<Longrightarrow>
   fill_edges freqs js es = Inr (fold (\<lambda>i es. es[i := g i]) js es)"
  by (induction js arbitrary: es) simp_all

lemma fill_edges_map:
  "(\<And>j. j < m \<Longrightarrow> log_midpoint (freqs ! j) (freqs ! (j + 1)) = Inr (g j)) \<Longrightarrow>
   fill_edges freqs [0..<m] (replicate m z) = Inr (map g [0..<m])"
  using fill_edges_fold [of "[0..<m]" freqs g "replicate m z"] by (simp add: fold_update_all)



lemma upto_from_minus_one: "0 \<le> n \<Longrightarrow> [-1..n - 1] = - 1 # map int [0..<nat n]"
proof -
  assume n: "0 \<le> n"
  have "[-1..n - 1] = - 1 # [0..n - 1]"
    using n by (subst upto_rec1) simp_all
  moreover have "[0..n - 1] = map int [0..<nat n]"
    using n by (intro nth_equalityI) (simp_all add: nth_upto)
  ultimately show ?thesis by simp
qed

lemma centers_int:
  assumes "0 \<le> n" and "\<bar>b\<bar> \<le> 2 ^ 64"
  shows "map_result (\<lambda>i. py_mul (PyInt b) (py_pow2 i)) [-1..n - 1] =
           Inr (PyFloat (Fin (real_of_int b / 2)) # map (\<lambda>k. PyInt (b * 2 ^ k)) [0..<nat n])"
proof -
  have conv: "int_to_float b = Inr (Fin (real_of_int b))"
    using assms(2) by (rule int_to_float_Fin) simp
  have "real_of_int \<bar>b\<bar> \<le> real_of_int (2 ^ 64)"
    using assms(2) by (simp only: of_int_le_iff)
  then have "\<bar>real_of_int b\<bar> \<le> 2 ^ 64"
    by simp
  moreover have "(2::real) ^ 64 < float_limit"
    by (rule float_limit_gt) simp
  ultimately have "\<bar>real_of_int b * (1 / 2)\<bar> < float_limit"
    by (simp add: abs_mult)
  then have half: "fl (real_of_int b * (1 / 2)) = Fin (real_of_int b / 2)"
    by (simp add: fl_Fin)
  have first: "py_mul (PyInt b) (py_pow2 (- 1)) = Inr (PyFloat (Fin (real_of_int b / 2)))"
    using half by (simp add: py_pow2_def conv)
  have rest: "map_result (\<lambda>i. py_mul (PyInt b) (py_pow2 i)) (map int [0..<nat n]) =
                Inr (map (\<lambda>i. PyInt (b * 2 ^ nat i)) (map int [0..<nat n]))"
    by (rule map_result_Inr) (auto simp: py_pow2_def)
  show ?thesis
    unfolding upto_from_minus_one [OF assms(1)]
    by (simp add: first rest comp_def)
qed

lemma sqrt_between:
  assumes "0 < a" and "a < b"
  shows "a < sqrt (a * b) \<and> sqrt (a * b) < b"
proof -
  have "sqrt (a * a) < sqrt (a * b)"
    using assms by (simp del: real_sqrt_mult real_sqrt_abs2 add: real_sqrt_less_iff)
  moreover have "sqrt (a * b) < sqrt (b * b)"
    using assms by (simp del: real_sqrt_mult real_sqrt_abs2 add: real_sqrt_less_iff)
  ultimately show ?thesis
    using assms by simp
qed

lemma midpoint_exponent:
  assumes "0 < a" and "0 < b"
  shows "10 powr (log 10 a + (log 10 b - log 10 a) / 2) = sqrt (a * b)"
proof -
  have pos: "0 < sqrt (a * b)"
    using assms by simp
  have "log 10 a + ((log 10 b - log 10 a) / 2) = log 10 (a * b) / 2"
    using assms by (simp add: log_mult_pos field_simps)
  also have "\<dots> = log 10 (sqrt (a * b))"
    using assms by (simp add: log_def ln_sqrt)
  finally have "10 powr (log 10 a + (log 10 b - log 10 a) / 2) = 10 powr log 10 (sqrt (a * b))"
    by simp
  then show ?thesis
    using pos by simp
qed

lemma log10_two: "0 < log 10 (2::real)" "log 10 (2::real) \<le> 1"
proof -
  show "0 < log 10 (2::real)" by simp
  have "log 10 (2::real) \<le> log 10 10"
    by (subst log_le_cancel_iff) simp_all
  then show "log 10 (2::real) \<le> 1" by simp
qed

lemma log10_bounds:
  assumes "2 powi (- 1022) \<le> a" and "a < float_limit"
  shows "- 1022 \<le> log 10 a" and "log 10 a < 1024"
proof -
  have p: "(0::real) < 2 powi (- 1022)"
    by simp
  then have a: "0 < a"
    using assms(1) by linarith
  have "log 10 a < log 10 (2 ^ 1024)"
    using a assms(2) unfolding float_limit_def by (subst log_less_cancel_iff) simp_all
  also have "\<dots> = real 1024 * log 10 2"
    by (rule log_nat_power) simp
  also have "\<dots> \<le> 1024"
    using log10_two by simp
  finally show "log 10 a < 1024" .
  have "(2::real) powi (- 1022) = inverse (2 ^ 1022)"
    by (simp add: power_int_minus)
  moreover have "log 10 (inverse ((2::real) ^ 1022)) = - log 10 (2 ^ 1022)"
    by (rule log_inverse)
  moreover have "log 10 ((2::real) ^ 1022) = real 1022 * log 10 2"
    by (rule log_nat_power) simp
  ultimately have "log 10 (2 powi (- 1022)) = - (1022 * log 10 (2::real))"
    by simp
  moreover have "log 10 (2 powi (- 1022)) \<le> log 10 a"
    using p a assms(1) by (subst log_le_cancel_iff) simp_all
  ultimately show "- 1022 \<le> log 10 a"
    using log10_two by linarith
qed

lemma abs_midpoint_bound:
  fixes x y l :: real
  assumes "- 1022 \<le> x" and "x < 1024" and "- 1022 \<le> y" and "y < 1024" and "4096 \<le> l"
  shows "\<bar>x + (y - x) / 2\<bar> < l"
proof -
  have "x + (y - x) / 2 < l"
    using assms by (simp add: field_simps)
  moreover have "- l < x + (y - x) / 2"
    using assms by (simp add: field_simps)
  ultimately show ?thesis
    by (simp add: abs_less_iff)
qed

lemma log_midpoint_Fin:
  assumes lo: "np_log10 lo = Inr (Fin (log 10 a))" and hi: "np_log10 hi = Inr (Fin (log 10 b))"
    and a: "2 powi (- 1022) \<le> a" "a < float_limit"
    and b: "2 powi (- 1022) \<le> b" "b < float_limit"
  shows "log_midpoint lo hi = Inr (Fin (sqrt (a * b)))"
proof -
  note la = log10_bounds [OF a] and lb = log10_bounds [OF b]
  have "(0::real) < 2 powi (- 1022)"
    by simp
  then have pos: "0 < a" "0 < b"
    using a(1) b(1) by linarith+
  have L: "4096 \<le> float_limit"
    by (rule float_limit_4096)
  have "\<bar>log 10 b + - log 10 a\<bar> < float_limit"
    using la lb L by linarith
  then have s: "float_sub (Fin (log 10 b)) (Fin (log 10 a)) = Fin (log 10 b - log 10 a)"
    by (simp add: float_sub_def fl_Fin)
  have "\<bar>(log 10 b - log 10 a) / 2\<bar> < float_limit"
    using la lb L by (simp add: abs_less_iff)
  then have d: "float_div (Fin (log 10 b - log 10 a)) (Fin 2) = Fin ((log 10 b - log 10 a) / 2)"
    by (simp add: fl_Fin)
  have "\<bar>log 10 a + (log 10 b - log 10 a) / 2\<bar> < float_limit"
    using la lb L by (intro abs_midpoint_bound)
  then have p: "float_add (Fin (log 10 a)) (Fin ((log 10 b - log 10 a) / 2))
             = Fin (log 10 a + (log 10 b - log 10 a) / 2)"
    by (simp add: fl_Fin)
  have "a * b < float_limit * float_limit"
    using pos a(2) b(2) by (intro mult_strict_mono) simp_all
  then have "sqrt (a * b) < sqrt (float_limit * float_limit)"
    by (simp only: real_sqrt_less_iff)
  moreover have "0 \<le> float_limit"
    using L by simp
  ultimately have "sqrt (a * b) < float_limit"
    by simp
  moreover have "0 \<le> sqrt (a * b)"
    using pos by simp
  ultimately have t: "fl (sqrt (a * b)) = Fin (sqrt (a * b))"
    by (intro fl_Fin) simp
  show ?thesis
    unfolding log_midpoint_def lo hi
    by (simp only: sum.case s d p ten_power.simps midpoint_exponent [OF pos] t)
qed

lemma np_log10_int:
  assumes "0 < k" and "k < 2 ^ 64"
  shows "np_log10 (PyInt k) = Inr (Fin (log 10 (real_of_int k)))"
  using assms by simp

lemma np_log10_float: "0 < x \<Longrightarrow> np_log10 (PyFloat (Fin x)) = Inr (Fin (log 10 x))"
  by simp

lemma min_normal_le_half: "(2::real) powi (- 1022) \<le> 1 / 2"
proof -
  have "(2::real) ^ 1 \<le> 2 ^ 1022"
    by (rule power_increasing) simp_all
  then have "inverse ((2::real) ^ 1022) \<le> inverse (2 ^ 1)"
    by (intro le_imp_inverse_le) simp_all
  then show ?thesis
    by (simp add: power_int_minus)
qed

lemma plan_general:
  assumes comp: "map_result (\<lambda>i. py_mul base (py_pow2 i)) [-1..n - 1] = Inr F"
    and len: "length F = m + 1"
    and logs: "\<And>j. j \<le> m \<Longrightarrow> np_log10 (F ! j) = Inr (Fin (log 10 (c j)))"
    and range: "\<And>j. j \<le> m \<Longrightarrow> 2 powi (- 1022) \<le> c j \<and> c j < float_limit"
  shows "calculate_centers self base n =
           Inr ((F, map (\<lambda>i. Fin (sqrt (c i * c (i + 1)))) [0..<m]),
                self\<lparr>frequencies := F,
                     edges := map (\<lambda>i. Fin (sqrt (c i * c (i + 1)))) [0..<m]\<rparr>)"
proof -
  have mid: "log_midpoint (F ! j) (F ! (j + 1)) = Inr (Fin (sqrt (c j * c (j + 1))))"
    if "j < m" for j
  proof -
    have "j \<le> m" "j + 1 \<le> m"
      using that by simp_all
    then show ?thesis
      using logs [of j] logs [of "j + 1"] range [of j] range [of "j + 1"]
      by (intro log_midpoint_Fin) simp_all
  qed
  have "fill_edges F [0..<m] (replicate m (Fin 0)) =
          Inr (map (\<lambda>i. Fin (sqrt (c i * c (i + 1)))) [0..<m])"
    using mid by (rule fill_edges_map)
  then show ?thesis
    by (simp add: calculate_centers_def comp len)
qed

lemma plan_nan:
  assumes comp: "map_result (\<lambda>i. py_mul base (py_pow2 i)) [-1..n - 1] = Inr F"
    and len: "length F = m + 1"
    and logs: "(\<forall>j \<le> m. np_log10 (F ! j) = Inr NaN) \<or> (\<forall>j \<le> m. np_log10 (F ! j) = Inr NegInf)"
  shows "calculate_centers self base n =
           Inr ((F, replicate m NaN), self\<lparr>frequencies := F, edges := replicate m NaN\<rparr>)"
proof -
  have mid: "log_midpoint (F ! j) (F ! (j + 1)) = Inr NaN" if "j < m" for j
  proof -
    have "j \<le> m" "j + 1 \<le> m"
      using that by simp_all
    then have "np_log10 (F ! j) = Inr NaN \<and> np_log10 (F ! (j + 1)) = Inr NaN \<or>
               np_log10 (F ! j) = Inr NegInf \<and> np_log10 (F ! (j + 1)) = Inr NegInf"
      using logs by blast
    then show ?thesis
      by (auto simp: log_midpoint_def float_sub_def)
  qed
  have "fill_edges F [0..<m] (replicate m (Fin 0)) = Inr (map (\<lambda>i. NaN) [0..<m])"
    using mid by (rule fill_edges_map)
  moreover have "map (\<lambda>i. NaN) [0..<m] = replicate m NaN"
    by (simp add: map_replicate_const)
  ultimately show ?thesis
    by (simp add: calculate_centers_def comp len)
qed

lemma int_center_bound:
  assumes "0 < b" and "k \<le> m" and "b * 2 ^ m < (2::int) ^ 64"
  shows "0 < b * 2 ^ k" and "b * 2 ^ k < 2 ^ 64"
proof -
  show "0 < b * 2 ^ k"
    using assms(1) by simp
  have "(2::int) ^ k \<le> 2 ^ m"
    using assms(2) by (intro power_increasing) simp_all
  then have "b * 2 ^ k \<le> b * 2 ^ m"
    using assms(1) by (intro mult_left_mono) simp_all
  then show "b * 2 ^ k < 2 ^ 64"
    using assms(3) by linarith
qed

lemma plan_int:
  assumes n: "1 \<le> n" and b: "0 < b" and top: "b * 2 ^ (nat n - 1) < 2 ^ 64"
  shows "calculate_centers self (PyInt b) n =
     Inr ((PyFloat (Fin (real_of_int b / 2)) # map (\<lambda>k. PyInt (b * 2 ^ k)) [0..<nat n],
           map (\<lambda>i. Fin (sqrt (real_of_int b * 2 powi (int i - 1) *
                                 (real_of_int b * 2 powi (int (i + 1) - 1))))) [0..<nat n]),
          self\<lparr>frequencies :=
                 PyFloat (Fin (real_of_int b / 2)) # map (\<lambda>k. PyInt (b * 2 ^ k)) [0..<nat n],
               edges := map (\<lambda>i. Fin (sqrt (real_of_int b * 2 powi (int i - 1) *
                                 (real_of_int b * 2 powi (int (i + 1) - 1))))) [0..<nat n]\<rparr>)"
proof (rule plan_general)
  let ?F = "PyFloat (Fin (real_of_int b / 2)) # map (\<lambda>k. PyInt (b * 2 ^ k)) [0..<nat n]"
  have b64: "b < 2 ^ 64"
    using int_center_bound(2) [OF b _ top, of 0] by simp
  then have "\<bar>b\<bar> \<le> 2 ^ 64"
    using b by simp
  then show "map_result (\<lambda>i. py_mul (PyInt b) (py_pow2 i)) [-1..n - 1] = Inr ?F"
    using n by (intro centers_int) simp_all
  show "length ?F = nat n + 1"
    by simp
  show "np_log10 (?F ! j) = Inr (Fin (log 10 (real_of_int b * 2 powi (int j - 1))))"
    if "j \<le> nat n" for j
  proof (cases j)
    case 0
    then show ?thesis
      using b by (simp add: power_int_minus field_simps)
  next
    case (Suc k)
    then have k: "k \<le> nat n - 1" "k < nat n"
      using that by simp_all
    note bd = int_center_bound [OF b k(1) top]
    have "np_log10 (PyInt (b * 2 ^ k)) = Inr (Fin (log 10 (real_of_int (b * 2 ^ k))))"
      using bd by (rule np_log10_int)
    then show ?thesis
      using Suc k by simp
  qed
  show "2 powi (- 1022) \<le> real_of_int b * 2 powi (int j - 1) \<and>
        real_of_int b * 2 powi (int j - 1) < float_limit" if "j \<le> nat n" for j
  proof (cases j)
    case 0
    have "1 \<le> real_of_int b"
      using b by simp
    then have "1 / 2 \<le> real_of_int b * 2 powi (- 1)"
      by (simp add: power_int_minus field_simps)
    moreover have "real_of_int b < 2 ^ 64"
      using b64 by (metis of_int_less_iff of_int_numeral of_int_power)
    then have "real_of_int b * 2 powi (- 1) < 2 ^ 64"
      using b by (simp add: power_int_minus field_simps)
    moreover have "(2::real) ^ 64 < float_limit"
      by (rule float_limit_gt) simp
    ultimately show ?thesis
      using 0 min_normal_le_half by simp
  next
    case (Suc k)
    then have k: "k \<le> nat n - 1"
      using that by simp
    note bd = int_center_bound [OF b k top]
    have "real_of_int (b * 2 ^ k) < real_of_int (2 ^ 64)"
      using bd(2) by (simp only: of_int_less_iff)
    then have up: "real_of_int b * 2 ^ k < 2 ^ 64"
      by simp
    have "1 \<le> b * 2 ^ k"
      using bd(1) by simp
    then have "real_of_int 1 \<le> real_of_int (b * 2 ^ k)"
      by (simp only: of_int_le_iff)
    then have lo: "1 \<le> real_of_int b * 2 ^ k"
      by simp
    have "(2::real) ^ 64 < float_limit"
      by (rule float_limit_gt) simp
    then show ?thesis
      using Suc up lo min_normal_le_half by simp
  qed
qed



lemma plan_int_nonpositive:
  assumes n: "1 \<le> n" and b: "b \<le> 0" and low: "- (2 ^ 63) \<le> b * 2 ^ (nat n - 1)"
  shows "calculate_centers self (PyInt b) n =
     Inr ((PyFloat (Fin (real_of_int b / 2)) # map (\<lambda>k. PyInt (b * 2 ^ k)) [0..<nat n],
           replicate (nat n) NaN),
          self\<lparr>frequencies :=
                 PyFloat (Fin (real_of_int b / 2)) # map (\<lambda>k. PyInt (b * 2 ^ k)) [0..<nat n],
               edges := replicate (nat n) NaN\<rparr>)"
proof (rule plan_nan)
  let ?F = "PyFloat (Fin (real_of_int b / 2)) # map (\<lambda>k. PyInt (b * 2 ^ k)) [0..<nat n]"
  have bd: "- (2 ^ 63) \<le> b * 2 ^ k \<and> b * 2 ^ k \<le> 0" if "k \<le> nat n - 1" for k
  proof -
    have "(2::int) ^ k \<le> 2 ^ (nat n - 1)"
      using that by (intro power_increasing) simp_all
    then have "b * 2 ^ (nat n - 1) \<le> b * 2 ^ k"
      using b by (intro mult_left_mono_neg) simp_all
    moreover have "b * 2 ^ k \<le> 0"
      using b by (simp add: mult_le_0_iff)
    ultimately show ?thesis
      using low by linarith
  qed
  from bd [of 0] have "\<bar>b\<bar> \<le> 2 ^ 64"
    using b by simp
  then show "map_result (\<lambda>i. py_mul (PyInt b) (py_pow2 i)) [-1..n - 1] = Inr ?F"
    using n by (intro centers_int) simp_all
  show "length ?F = nat n + 1"
    by simp
  show "(\<forall>j \<le> nat n. np_log10 (?F ! j) = Inr NaN) \<or>
        (\<forall>j \<le> nat n. np_log10 (?F ! j) = Inr NegInf)"
  proof (cases "b = 0")
    case True
    have "np_log10 (?F ! j) = Inr NegInf" if "j \<le> nat n" for j
      using that True by (cases j) simp_all
    then show ?thesis
      by blast
  next
    case False
    then have neg: "b < 0"
      using b by simp
    have "np_log10 (?F ! j) = Inr NaN" if "j \<le> nat n" for j
    proof (cases j)
      case 0
      then show ?thesis
        using neg by simp
    next
      case (Suc k)
      then have k: "k \<le> nat n - 1" "k < nat n"
        using that by simp_all
      have "b * 2 ^ k < 0"
        using neg by (simp add: mult_less_0_iff)
      moreover have "real_of_int b * 2 ^ k < 0"
        using neg by (simp add: mult_less_0_iff)
      ultimately show ?thesis
        using Suc k bd [OF k(1)] neg by simp
    qed
    then show ?thesis
      by blast
  qed
qed

lemma upt_6: "[0..<6] = [0, 1, 2, 3, 4, 5]"
  by (simp add: upt_rec)

lemma default_edges_between:
  "50 < sqrt 5000 \<and> sqrt 5000 < (100::real)"
  "100 < sqrt 20000 \<and> sqrt 20000 < (200::real)"
  "200 < sqrt 80000 \<and> sqrt 80000 < (400::real)"
  "400 < sqrt 320000 \<and> sqrt 320000 < (800::real)"
  "800 < sqrt 1280000 \<and> sqrt 1280000 < (1600::real)"
  "1600 < sqrt 5120000 \<and> sqrt 5120000 < (3200::real)"
  "3200 < sqrt 20480000 \<and> sqrt 20480000 < (6400::real)"
  using sqrt_between [of 50 100] sqrt_between [of 100 200] sqrt_between [of 200 400]
    sqrt_between [of 400 800] sqrt_between [of 800 1600] sqrt_between [of 1600 3200]
    sqrt_between [of 3200 6400]
  by simp_all

text \<open>
  Claim C2. With the default constants (\<open>BASE_FREQUENCY = 100\<close>, \<open>NUM_BANDS = 6\<close>,
  \<open>FS = 16000\<close>) the planner called for 6 bands returns exactly the centers
  50, 100, 200, 400, 800, 1600, 3200 (the first a float, \<^verbatim>\<open>100 * 2**-1\<close>, the others
  Python integers); its six edges are finite, the geometric means of consecutive
  centers, each strictly between its two centers, and each below the Nyquist frequency
  \<open>0.5 * FS = 8000\<close>. (The main program itself passes \<open>NUM_BANDS + 1\<close>; see C10.)
\<close>

theorem default_plan:
  "case calculate_centers self (PyInt BASE_FREQUENCY) (int NUM_BANDS) of
     Inl _ \<Rightarrow> False
   | Inr ((freqs, es), _) \<Rightarrow>
       freqs = [PyFloat (Fin 50), PyInt 100, PyInt 200, PyInt 400, PyInt 800, PyInt 1600,
                PyInt 3200] \<and>
       es = map Fin [sqrt (50 * 100), sqrt (100 * 200), sqrt (200 * 400), sqrt (400 * 800),
                     sqrt (800 * 1600), sqrt (1600 * 3200)] \<and>
       list_all (\<lambda>i. [50, 100, 200, 400, 800, 1600, 3200] ! i
                        < [sqrt (50 * 100), sqrt (100 * 200), sqrt (200 * 400),
                           sqrt (400 * 800), sqrt (800 * 1600), sqrt (1600 * 3200)] ! i \<and>
                      [sqrt (50 * 100), sqrt (100 * 200), sqrt (200 * 400),
                       sqrt (400 * 800), sqrt (800 * 1600), sqrt (1600 * 3200)] ! i
                        < [50, 100, 200, 400, 800, 1600, 3200 :: real] ! (i + 1)) [0..<6] \<and>
       list_all (\<lambda>e. e < 0.5 * FS)
         [sqrt (50 * 100), sqrt (100 * 200), sqrt (200 * 400), sqrt (400 * 800),
          sqrt (800 * 1600), sqrt (1600 * 3200)] \<and>
       0.5 * FS = 8000"
proof -
  have h: "(1::int) \<le> 6" "(0::int) < 100" "(100::int) * 2 ^ (nat 6 - 1) < 2 ^ 64"
    by simp_all
  have n: "nat 6 = 6"
    by simp
  show ?thesis
    unfolding NUM_BANDS_def BASE_FREQUENCY_def
    using default_edges_between
    by (simp add: plan_int [OF h] n upt_6 FS_def)
qed






lemma last_map_upt: "0 < m \<Longrightarrow> last (map g [0..<m]) = g (m - 1)"
  by (cases m) simp_all

text \<open>
  Claim C7, as the code has it. The planner checks neither the base frequency nor the
  Nyquist frequency. For an integer base frequency \<open>b > 0\<close> and \<open>n \<ge> 1\<close> bands with
  \<open>b * 2^(n - 1) < 2^64\<close> it returns, and its highest edge is the geometric mean of the
  two highest centers whether or not that is below the Nyquist frequency. For an
  integer base frequency \<open>b \<le> 0\<close> with \<open>b * 2^(n - 1) \<ge> -2^63\<close> it returns as well, every
  edge being not-a-number. (Outside these ranges the planner can end in the
  \<^verbatim>\<open>TypeError\<close> of \<^verbatim>\<open>np.log10\<close>, which is no validation of the configuration.)
\<close>

theorem calculate_centers_unvalidated:
  "(1 \<le> n \<and> 0 < b \<and> b * 2 ^ (nat n - 1) < 2 ^ 64 \<longrightarrow>
      (\<exists>freqs es self'.
         calculate_centers self (PyInt b) n = Inr ((freqs, es), self') \<and>
         es \<noteq> [] \<and>
         last es = Fin (sqrt (real_of_int b * 2 powi (n - 2) * (real_of_int b * 2 powi (n - 1)))))) \<and>
   (1 \<le> n \<and> b \<le> 0 \<and> - (2 ^ 63) \<le> b * 2 ^ (nat n - 1) \<longrightarrow>
      (\<exists>freqs self'.
         calculate_centers self (PyInt b) n = Inr ((freqs, replicate (nat n) NaN), self')))"
proof (intro conjI impI)
  assume h: "1 \<le> n \<and> 0 < b \<and> b * 2 ^ (nat n - 1) < 2 ^ 64"
  let ?F = "PyFloat (Fin (real_of_int b / 2)) # map (\<lambda>k. PyInt (b * 2 ^ k)) [0..<nat n]"
  let ?g = "\<lambda>i. Fin (sqrt (real_of_int b * 2 powi (int i - 1) *
                                 (real_of_int b * 2 powi (int (i + 1) - 1))))"
  from h have c: "calculate_centers self (PyInt b) n =
      Inr ((?F, map ?g [0..<nat n]), self\<lparr>frequencies := ?F, edges := map ?g [0..<nat n]\<rparr>)"
    by (intro plan_int) simp_all
  have n0: "0 < nat n"
    using h by simp
  then have ne: "map ?g [0..<nat n] \<noteq> []"
    by simp
  have "last (map ?g [0..<nat n]) = ?g (nat n - 1)"
    using n0 by (rule last_map_upt)
  moreover have "int (nat n - 1) - 1 = n - 2" "int (nat n - 1 + 1) - 1 = n - 1"
    using h by linarith+
  ultimately have "last (map ?g [0..<nat n]) =
      Fin (sqrt (real_of_int b * 2 powi (n - 2) * (real_of_int b * 2 powi (n - 1))))"
    by simp
  with c ne show "\<exists>freqs es self'.
         calculate_centers self (PyInt b) n = Inr ((freqs, es), self') \<and>
         es \<noteq> [] \<and>
         last es = Fin (sqrt (real_of_int b * 2 powi (n - 2) * (real_of_int b * 2 powi (n - 1))))"
    by blast
next
  assume h: "1 \<le> n \<and> b \<le> 0 \<and> - (2 ^ 63) \<le> b * 2 ^ (nat n - 1)"
  then have "calculate_centers self (PyInt b) n =
     Inr ((PyFloat (Fin (real_of_int b / 2)) # map (\<lambda>k. PyInt (b * 2 ^ k)) [0..<nat n],
           replicate (nat n) NaN),
          self\<lparr>frequencies :=
                 PyFloat (Fin (real_of_int b / 2)) # map (\<lambda>k. PyInt (b * 2 ^ k)) [0..<nat n],
               edges := replicate (nat n) NaN\<rparr>)"
    by (intro plan_int_nonpositive) simp_all
  then show "\<exists>freqs self'.
         calculate_centers self (PyInt b) n = Inr ((freqs, replicate (nat n) NaN), self')"
    by blast
qed

theorem calculate_centers_unvalidated_witness:
  "((1::int) \<le> 7 \<and> (0::int) < 2000 \<and> (2000::int) * 2 ^ (nat 7 - 1) < 2 ^ 64) \<and>
   (\<exists>freqs es self'.
      calculate_centers SignalProcessor_init (PyInt 2000) 7 = Inr ((freqs, es), self') \<and>
      es \<noteq> [] \<and>
      last es = Fin (sqrt (real_of_int 2000 * 2 powi (7 - 2) * (real_of_int 2000 * 2 powi (7 - 1))))) \<and>
   0.5 * FS \<le> sqrt (real_of_int 2000 * 2 powi (7 - 2) * (real_of_int 2000 * 2 powi (7 - 1))) \<and>
   ((1::int) \<le> 3 \<and> (- 100::int) \<le> 0 \<and> - (2 ^ 63) \<le> (- 100::int) * 2 ^ (nat 3 - 1)) \<and>
   (\<exists>freqs self'.
      calculate_centers SignalProcessor_init (PyInt (- 100)) 3
        = Inr ((freqs, replicate (nat 3) NaN), self'))"
proof -
  have h1: "(1::int) \<le> 7 \<and> (0::int) < 2000 \<and> (2000::int) * 2 ^ (nat 7 - 1) < 2 ^ 64"
    by simp
  have h2: "(1::int) \<le> 3 \<and> (- 100::int) \<le> 0 \<and> - (2 ^ 63) \<le> (- 100::int) * 2 ^ (nat 3 - 1)"
    by simp
  have "(8000::real) \<le> sqrt 8192000000"
    by (rule real_le_rsqrt) simp
  then have ny: "0.5 * FS \<le> sqrt (real_of_int 2000 * 2 powi (7 - 2) * (real_of_int 2000 * 2 powi (7 - 1)))"
    by (simp add: FS_def)
  note t1 = calculate_centers_unvalidated [of 7 2000 SignalProcessor_init, THEN conjunct1, rule_format, OF h1]
  note t2 = calculate_centers_unvalidated [of 3 "- 100" SignalProcessor_init, THEN conjunct2, rule_format, OF h2]
  show ?thesis
    by (rule conjI [OF h1 conjI [OF t1 conjI [OF ny conjI [OF h2 t2]]]])
qed

text \<open>
  Claim C7 as the spec states it fails: with base frequency 16000 and one band the only edge is
  above the Nyquist frequency 8000, and the planner returns it; with base frequency 0
  and one band the planner returns the edge not-a-number. No error is signalled in
  either case.
\<close>

theorem planner_input_not_validated:
  "calculate_centers SignalProcessor_init (PyInt 16000) 1 =
     Inr (([PyFloat (Fin 8000), PyInt 16000], [Fin (sqrt (8000 * 16000))]),
          SignalProcessor_init\<lparr>frequencies := [PyFloat (Fin 8000), PyInt 16000],
                               edges := [Fin (sqrt (8000 * 16000))]\<rparr>) \<and>
   0.5 * fs SignalProcessor_init \<le> sqrt (8000 * 16000) \<and>
   calculate_centers SignalProcessor_init (PyInt 0) 1 =
     Inr (([PyFloat (Fin 0), PyInt 0], [NaN]),
          SignalProcessor_init\<lparr>frequencies := [PyFloat (Fin 0), PyInt 0], edges := [NaN]\<rparr>)"
proof -
  have h: "(1::int) \<le> 1" "(0::int) < 16000" "(16000::int) * 2 ^ (nat 1 - 1) < 2 ^ 64"
    by simp_all
  have z: "(1::int) \<le> 1" "(0::int) \<le> 0" "- (2 ^ 63) \<le> (0::int) * 2 ^ (nat 1 - 1)"
    by simp_all
  have "(8000::real) \<le> sqrt 128000000"
    by (rule real_le_rsqrt) simp
  then show ?thesis
    by (simp add: plan_int [OF h] plan_int_nonpositive [OF z] SignalProcessor_init_def FS_def)
qed

section \<open>Facts about the quantizer\<close>

lemma np_round_nearest: "\<bar>real_of_int (np_round x) - x\<bar> \<le> 1 / 2"
proof -
  have "of_int \<lfloor>x\<rfloor> \<le> x" "x < of_int \<lfloor>x\<rfloor> + 1"
    by linarith+
  then show ?thesis
    by (auto simp: np_round_def Let_def)
qed

lemma coefsQ31_eq:
  "coefsQ31 n s =
     (if length (concat (hstack_coefs s)) = n
      then Inr (map (\<lambda>c. np_round (c / real (POSTSHIFT ^ 2) * 2 ^ 31)) (concat (hstack_coefs s)))
      else Inl ValueError)"
  by (simp add: coefsQ31_def np_reshape_def Let_def comp_def)

lemma hstack_rows:
  "hstack_coefs (map (\<lambda>(b0, b1, b2, a0, a1, a2). [b0, b1, b2, a0, a1, a2]) stages) =
     map (\<lambda>(b0, b1, b2, a0, a1, a2). [b0, b1, b2, - a1, - a2]) stages"
  by (induction stages) (auto simp: hstack_coefs_def)

lemma length_concat_five:
  "length (concat (map (\<lambda>(b0, b1, b2, a0, a1, a2). [b0, b1, b2, - a1, - a2 :: real]) stages))
     = 5 * length stages"
  by (induction stages) auto

lemma concat_map_rows:
  "concat (map (\<lambda>(b0, b1, b2, a0, a1, a2). map g [b0, b1, b2, - a1, - a2 :: real]) stages) =
     map g (concat (map (\<lambda>(b0, b1, b2, a0, a1, a2). [b0, b1, b2, - a1, - a2]) stages))"
  by (induction stages) auto

lemma example_q:
  "coefsQ31 15 example_sos =
     Inr [134217728, 268435456, 134217728, 201326592, - 93952410,
          13421773, 0, - 13421773, - 33554432, - 67108864,
          134217728, - 268435456, 134217728, 0, - 44739243]"
  by (simp add: coefsQ31_eq example_sos_def hstack_coefs_def POSTSHIFT_def np_round_def)

text \<open>
  Claim C4. For a cascade of \<open>NUMSTAGES\<close> sections, each a row
  \<open>b0, b1, b2, a0, a1, a2\<close>, the quantizer returns, section after section, the five
  values \<open>b0, b1, b2, -a1, -a2\<close>, each divided by the scale \<^verbatim>\<open>POSTSHIFT ** 2\<close> (which is
  \<open>4^2 = 16\<close>), multiplied by \<open>2^31\<close> and rounded by \<^verbatim>\<open>np.round\<close>, whose result is within
  one half of its argument (the nearest integer). The copy of the code with the literal
  size 15 computes the same.
\<close>

theorem coefsQ31_per_stage:
  assumes "length stages = NUMSTAGES"
  shows "coefsQ31 (NUMSTAGES * 5)
           (map (\<lambda>(b0, b1, b2, a0, a1, a2). [b0, b1, b2, a0, a1, a2]) stages) =
         Inr (concat (map (\<lambda>(b0, b1, b2, a0, a1, a2).
                map (\<lambda>c. np_round (c / real (POSTSHIFT ^ 2) * 2 ^ 31)) [b0, b1, b2, - a1, - a2])
              stages)) \<and>
         coefsQ31 15 (map (\<lambda>(b0, b1, b2, a0, a1, a2). [b0, b1, b2, a0, a1, a2]) stages) =
         coefsQ31 (NUMSTAGES * 5)
           (map (\<lambda>(b0, b1, b2, a0, a1, a2). [b0, b1, b2, a0, a1, a2]) stages) \<and>
         real (POSTSHIFT ^ 2) = 4 ^ 2 \<and>
         (\<forall>x. \<bar>real_of_int (np_round x) - x\<bar> \<le> 1 / 2)"
proof -
  let ?s = "map (\<lambda>(b0, b1, b2, a0, a1, a2). [b0, b1, b2, a0, a1, a2]) stages"
  have five: "NUMSTAGES * 5 = 15"
    by (simp add: NUMSTAGES_def)
  have len: "length (concat (hstack_coefs ?s)) = NUMSTAGES * 5"
    using assms by (simp only: hstack_rows length_concat_five mult.commute)
  have "coefsQ31 (NUMSTAGES * 5) ?s =
          Inr (map (\<lambda>c. np_round (c / real (POSTSHIFT ^ 2) * 2 ^ 31)) (concat (hstack_coefs ?s)))"
    unfolding coefsQ31_eq using len by (rule if_P)
  then have first: "coefsQ31 (NUMSTAGES * 5) ?s =
          Inr (concat (map (\<lambda>(b0, b1, b2, a0, a1, a2).
                map (\<lambda>c. np_round (c / real (POSTSHIFT ^ 2) * 2 ^ 31)) [b0, b1, b2, - a1, - a2])
              stages))"
    by (simp only: hstack_rows concat_map_rows)
  have second: "coefsQ31 15 ?s = coefsQ31 (NUMSTAGES * 5) ?s"
    by (simp only: five)
  have third: "real (POSTSHIFT ^ 2) = 4 ^ 2"
    by (simp add: POSTSHIFT_def)
  show ?thesis
    using first second third np_round_nearest by blast
qed

theorem coefsQ31_per_stage_witness:
  "length ([(1, 2, 1, 1, - 3 / 2, 7 / 10), (1 / 10, 0, - 1 / 10, 1, 1 / 4, 1 / 2),
           (1, - 2, 1, 1, 0, 1 / 3)]
            :: (real \<times> real \<times> real \<times> real \<times> real \<times> real) list) = NUMSTAGES \<and>
   coefsQ31 (NUMSTAGES * 5)
     [[1, 2, 1, 1, - 3 / 2, 7 / 10], [1 / 10, 0, - 1 / 10, 1, 1 / 4, 1 / 2],
      [1, - 2, 1, 1, 0, 1 / 3]] =
     Inr [134217728, 268435456, 134217728, 201326592, - 93952410,
          13421773, 0, - 13421773, - 33554432, - 67108864,
          134217728, - 268435456, 134217728, 0, - 44739243]"
proof -
  have h: "length ([(1, 2, 1, 1, - 3 / 2, 7 / 10), (1 / 10, 0, - 1 / 10, 1, 1 / 4, 1 / 2),
                   (1, - 2, 1, 1, 0, 1 / 3)]
            :: (real \<times> real \<times> real \<times> real \<times> real \<times> real) list) = NUMSTAGES"
    by (simp add: NUMSTAGES_def)
  show ?thesis
    using h coefsQ31_per_stage [OF h]
    by (simp add: POSTSHIFT_def np_round_def)
qed

text \<open>
  Claim C6. Whenever the quantizer returns, every returned integer, multiplied back by
  the scale and divided by \<open>2^31\<close>, differs from the coefficient it was rounded from
  (\<open>b0, b1, b2, -a1\<close> or \<open>-a2\<close> of its section) by at most half a unit of Q31 resolution at
  that scale, hence by at most one unit \<open>scale * 2^-31\<close>. The quantizer never
  saturates, so the bound holds for every coefficient, in particular for those whose
  scaled value lies inside the Q31 range.
\<close>

lemma dequantize_error:
  "\<bar>spec_dequantize (np_round (c / real (POSTSHIFT ^ 2) * 2 ^ 31)) - c\<bar>
     \<le> real (POSTSHIFT ^ 2) / 2 ^ 31 / 2"
proof -
  define y where "y = c / 16 * (2::real) ^ 31"
  have c: "c = y * 16 / 2 ^ 31"
    by (simp add: y_def)
  have "\<bar>real_of_int (np_round y) - y\<bar> \<le> 1 / 2"
    by (rule np_round_nearest)
  then have "\<bar>real_of_int (np_round y) - y\<bar> * (16 / 2 ^ 31) \<le> 1 / 2 * (16 / 2 ^ 31)"
    by (intro mult_right_mono) simp_all
  moreover have "\<bar>real_of_int (np_round y) * 16 / 2 ^ 31 - y * 16 / 2 ^ 31\<bar>
      = \<bar>real_of_int (np_round y) - y\<bar> * (16 / 2 ^ 31)"
    by (simp add: abs_mult field_simps flip: left_diff_distrib)
  ultimately have "\<bar>real_of_int (np_round y) * 16 / 2 ^ 31 - c\<bar> \<le> 16 / 2 ^ 31 / 2"
    unfolding c by simp
  then show ?thesis
    by (simp add: spec_dequantize_def POSTSHIFT_def y_def)
qed

theorem quantize_roundtrip:
  assumes "coefsQ31 n s = Inr q" and "k < length q"
  shows "\<bar>spec_dequantize (q ! k) - concat (hstack_coefs s) ! k\<bar>
           \<le> real (POSTSHIFT ^ 2) / 2 ^ 31 / 2 \<and>
         \<bar>spec_dequantize (q ! k) - concat (hstack_coefs s) ! k\<bar>
           \<le> real (POSTSHIFT ^ 2) * 2 powi (- 31)"
proof -
  let ?cs = "concat (hstack_coefs s)"
  have q: "q = map (\<lambda>c. np_round (c / real (POSTSHIFT ^ 2) * 2 ^ 31)) ?cs"
    using assms(1) by (simp add: coefsQ31_eq split: if_splits)
  then have k: "k < length ?cs"
    using assms(2) by simp
  have "q ! k = np_round (?cs ! k / real (POSTSHIFT ^ 2) * 2 ^ 31)"
    unfolding q using k by (rule nth_map)
  then have half: "\<bar>spec_dequantize (q ! k) - ?cs ! k\<bar> \<le> real (POSTSHIFT ^ 2) / 2 ^ 31 / 2"
    using dequantize_error [of "?cs ! k"] by simp
  have "real (POSTSHIFT ^ 2) / 2 ^ 31 / 2 \<le> real (POSTSHIFT ^ 2) * 2 powi (- 31)"
    by (simp add: POSTSHIFT_def power_int_minus)
  with half show ?thesis
    by linarith
qed

theorem quantize_roundtrip_witness:
  "coefsQ31 15 example_sos =
     Inr [134217728, 268435456, 134217728, 201326592, - 93952410,
          13421773, 0, - 13421773, - 33554432, - 67108864,
          134217728, - 268435456, 134217728, 0, - 44739243] \<and>
   (4::nat) < length [134217728, 268435456, 134217728, 201326592, - 93952410,
          13421773, 0, - 13421773, - 33554432, - 67108864,
          134217728, - 268435456, 134217728, 0, - 44739243 :: int] \<and>
   \<bar>spec_dequantize (- 93952410) - (- (7 / 10))\<bar> \<le> real (POSTSHIFT ^ 2) / 2 ^ 31 / 2 \<and>
   \<bar>spec_dequantize (- 93952410) - (- (7 / 10))\<bar> \<le> real (POSTSHIFT ^ 2) * 2 powi (- 31)"
proof -
  have c: "concat (hstack_coefs example_sos) ! 4 = - (7 / 10)"
    by (simp add: example_sos_def hstack_coefs_def)
  show ?thesis
    using quantize_roundtrip [OF example_q, of 4] example_q unfolding c by simp
qed

text \<open>
  Claim C8, as the code has it. The quantizer checks no range: for a cascade holding
  \<open>n\<close> coefficients it returns every rounded scaled value as it is, whatever its
  magnitude, and its only error is numpy's \<^verbatim>\<open>ValueError\<close> for a cascade of another size.
\<close>

theorem coefsQ31_unchecked:
  "(coefsQ31 n s = Inl e) = (e = ValueError \<and> length (concat (hstack_coefs s)) \<noteq> n) \<and>
   (length (concat (hstack_coefs s)) = n \<longrightarrow>
      (\<exists>q. coefsQ31 n s = Inr q \<and> length q = n \<and>
           (\<forall>k < n. q ! k = np_round (concat (hstack_coefs s) ! k / real (POSTSHIFT ^ 2) * 2 ^ 31))))"
  by (auto simp: coefsQ31_eq)

theorem coefsQ31_unchecked_witness:
  "length (concat (hstack_coefs large_feedback_sos)) = 15 \<and>
   (\<exists>q. coefsQ31 15 large_feedback_sos = Inr q \<and> length q = 15 \<and>
        (\<forall>k < 15. q ! k =
           np_round (concat (hstack_coefs large_feedback_sos) ! k / real (POSTSHIFT ^ 2) * 2 ^ 31))) \<and>
   np_round (concat (hstack_coefs large_feedback_sos) ! 3 / real (POSTSHIFT ^ 2) * 2 ^ 31)
     = 5368709120"
proof -
  have h: "length (concat (hstack_coefs large_feedback_sos)) = 15"
    by (simp add: large_feedback_sos_def hstack_coefs_def)
  have v: "np_round (concat (hstack_coefs large_feedback_sos) ! 3 / real (POSTSHIFT ^ 2) * 2 ^ 31)
             = 5368709120"
    by (simp add: large_feedback_sos_def hstack_coefs_def POSTSHIFT_def np_round_def)
  show ?thesis
    using h v coefsQ31_unchecked [of 15 large_feedback_sos] by blast
qed

text \<open>
  Claim C8 as the spec states it fails: a first coefficient of 16 scales to exactly \<open>2^31\<close>, and the
  quantizer returns it without any error.
\<close>

theorem overflow_not_signalled:
  "coefsQ31 (NUMSTAGES * 5) overflow_sos =
     Inr [2147483648, 0, 0, 0, 0, 134217728, 268435456, 134217728, 0, 0,
          134217728, 268435456, 134217728, 0, 0] \<and>
   (2::int) ^ 31 \<le> \<bar>2147483648\<bar>"
  by (simp add: coefsQ31_eq overflow_sos_def hstack_coefs_def POSTSHIFT_def NUMSTAGES_def
      np_round_def)

section \<open>Facts about the loader\<close>

text \<open>
  Claim C9, as the code has it. Whatever sample rate the file carries, the loader stores
  the samples, keeps the configured \<^verbatim>\<open>self.fs\<close>, hands that configured rate to the plots
  and signals nothing: the file's rate is read and discarded.
\<close>

theorem load_input_signal_keeps_fs:
  assumes "librosa_load filename = Inr (samples, file_fs)"
  shows "load_input_signal librosa_load self filename =
           Inr (self\<lparr>input_signal := Some samples\<rparr>, fs self) \<and>
         fs (self\<lparr>input_signal := Some samples\<rparr>) = fs self"
  using assms by (simp add: load_input_signal_def)

theorem load_input_signal_keeps_fs_witness:
  "wav_44100 INPUT_FILENAME = Inr ([1 / 2, - 1 / 2], 44100) \<and>
   load_input_signal wav_44100 SignalProcessor_init INPUT_FILENAME =
     Inr (SignalProcessor_init\<lparr>input_signal := Some [1 / 2, - 1 / 2]\<rparr>, fs SignalProcessor_init)"
proof -
  have h: "wav_44100 INPUT_FILENAME = Inr ([1 / 2, - 1 / 2], 44100)"
    by (simp add: wav_44100_def)
  show ?thesis
    using h load_input_signal_keeps_fs [of wav_44100 INPUT_FILENAME "[1 / 2, - 1 / 2]" 44100
        SignalProcessor_init]
    by simp
qed

text \<open>
  Claim C9 as the spec states it fails: a file recorded at 44100 Hz is loaded into a processor
  configured for 16000 Hz without any error.
\<close>

theorem rate_mismatch_not_signalled:
  "load_input_signal wav_44100 SignalProcessor_init INPUT_FILENAME =
     Inr (SignalProcessor_init\<lparr>input_signal := Some [1 / 2, - 1 / 2]\<rparr>, 16000) \<and>
   fs SignalProcessor_init = 16000 \<and>
   wav_44100 INPUT_FILENAME = Inr ([1 / 2, - 1 / 2], 44100)"
  by (simp add: load_input_signal_def wav_44100_def SignalProcessor_init_def FS_def)


section \<open>Facts about the fixed-point path\<close>



text \<open>
  Claim C5, where the code departs from it. The signal handed to the engine is the input
  multiplied by \<open>2^31\<close> and divided by 4, but the engine's result is multiplied by 4 in
  32-bit arithmetic: a full-scale sample 1.0 reaches the engine as \<open>2^29\<close>, an engine
  that passes it on unchanged returns \<open>2^29\<close>, the in-place \<^verbatim>\<open>res2 *= 4\<close> wraps to
  \<open>-2^31\<close>, and the band's output is -1.0 instead of 1.0.
\<close>

theorem rescale_wraps:
  "arm_band example_init example_run full_scale_processor 0 =
     Inr ([- 1],
          full_scale_processor\<lparr>coefs := [134217728, 0, 0, 0, 0, 134217728, 0, 0, 0, 0,
                                          134217728, 0, 0, 0, 0]\<rparr>) \<and>
   input_signal full_scale_processor = Some [1] \<and>
   example_run (NUMSTAGES, [], POSTSHIFT) (map (\<lambda>x. x * 2 ^ 31 / 4) [1]) = Inr [536870912] \<and>
   sint (536870912 * 4 :: 32 word) = - (2 ^ 31)"
proof -
  have five: "NUMSTAGES * 5 = 15"
    by (simp add: NUMSTAGES_def)
  have q: "coefsQ31 15 unity_sos =
      Inr [134217728, 0, 0, 0, 0, 134217728, 0, 0, 0, 0, 134217728, 0, 0, 0, 0]"
    by (simp add: coefsQ31_eq unity_sos_def hstack_coefs_def POSTSHIFT_def np_round_def)
  show ?thesis
    unfolding arm_band_def
    by (simp add: five q full_scale_processor_def example_init_def example_run_def
        SignalProcessor_init_def)
qed

section \<open>Facts about the main program\<close>























end
